theory Spec2Isabelle
  imports Complex_Main "HOL-Library.Word" "HOL-Library.Char_ord" "HOL-Library.List_Lexorder"
begin

section \<open>The HTTP surface of whisper-openapi (webservice.py)\<close>

text \<open>
  The module \<^verbatim>\<open>webservice.py\<close> builds one ASR engine when it is imported and
  declares three POST endpoints that adapt a request into one call of the engine.
  The engine, the audio loader and the configuration live in other modules of the
  repository (\<^verbatim>\<open>app.factory\<close>, \<^verbatim>\<open>app.utils\<close>, \<^verbatim>\<open>app.config\<close>); the handlers
  below take them as the record \<open>env\<close>. Every call that leaves the module is written
  to a trace, so that what was called, on which engine object and with which
  arguments can be stated.
\<close>

subsection \<open>Data\<close>

type_synonym bytes = "8 word list"
type_synonym waveform = "real list"

text \<open>The identity of an engine object (Python's \<^verbatim>\<open>id\<close>).\<close>
type_synonym obj = nat

text \<open>\<^verbatim>\<open>app.config.CONFIG\<close>: the two settings the module reads.\<close>
record config =
  ASR_ENGINE :: string
  HF_TOKEN :: string

text \<open>
  The exceptions a request can end in: the taxonomy of the design document, and the
  \<^verbatim>\<open>KeyError\<close> of a dictionary lookup.
\<close>
datatype error =
    InvalidAudioError
  | InvalidOptionError
  | UnsupportedOptionError
  | EngineTimeoutError
  | EngineConstructionError
  | InvalidSegmentError
  | KeyError string

text \<open>
  \<^verbatim>\<open>UploadFile\<close>: the name the client gave the part and its content. A multipart
  part without a file name is not bound to an \<^verbatim>\<open>UploadFile\<close>, so the name is a
  string; it is kept as the UTF-8 bytes of the name.
\<close>
record upload_file =
  filename :: string
  file_bytes :: bytes

text \<open>The dictionary literal passed as the seventh argument of \<^verbatim>\<open>transcribe\<close>.\<close>
record diarize_options =
  opt_diarize :: bool
  opt_min_speakers :: "int option"
  opt_max_speakers :: "int option"

text \<open>The eight positional arguments of \<^verbatim>\<open>asr_model.transcribe\<close>, in order.\<close>
record transcribe_args =
  ta_audio :: waveform
  ta_task :: "string option"
  ta_language :: "string option"
  ta_initial_prompt :: "string option"
  ta_vad_filter :: "bool option"
  ta_word_timestamps :: bool
  ta_options :: diarize_options
  ta_output :: "string option"

text \<open>What an engine does inside a call, as far as the handlers' contract talks about it.\<close>
datatype engine_event = Inference

datatype event =
    Ev_create_asr_model obj
  | Ev_load_model obj
  | Ev_load_audio bytes bool
  | Ev_transcribe obj transcribe_args
  | Ev_language_detection obj waveform
  | Ev_engine engine_event

text \<open>
  The collaborators of the module. \<open>create_asr_model\<close> is one call of
  \<^verbatim>\<open>ASRModelFactory.create_asr_model()\<close>: the engine object it builds, or the
  exception it raises. \<open>transcribe\<close> and \<open>language_detection\<close> are the methods of
  the engine class, with the receiver as first argument, and return what the engine
  did and its result; \<open>LANGUAGES\<close> is \<^verbatim>\<open>whisper.tokenizer.LANGUAGES\<close>, code to
  name.
\<close>
record env =
  create_asr_model :: "error + obj"
  load_model :: "obj \<Rightarrow> error option"
  load_audio :: "bytes \<Rightarrow> bool \<Rightarrow> error + waveform"
  transcribe :: "obj \<Rightarrow> transcribe_args \<Rightarrow> engine_event list \<times> (error + string list)"
  language_detection :: "obj \<Rightarrow> waveform \<Rightarrow> engine_event list \<times> (error + string \<times> real)"
  LANGUAGES :: "(string \<times> string) list"

text \<open>\<^verbatim>\<open>StreamingResponse(result, media_type=..., headers=...)\<close>; its status is 200.\<close>
record streaming_response =
  body :: "string list"
  media_type :: string
  headers :: "(string \<times> string) list"

datatype json = JString string | JNumber real

type_synonym json_object = "(string \<times> json) list"

subsection \<open>Module level: lines 14 to 17\<close>

record module =
  asr_model :: obj
  LANGUAGE_CODES :: "string list"

text \<open>
  Importing the module: the factory is called once, then \<^verbatim>\<open>load_model\<close> on what it
  returned. An exception of either ends the import, and no endpoint exists.
\<close>
definition module_import :: "env \<Rightarrow> event list \<times> (error + module)" where
  "module_import env =
     (case create_asr_model env of
        Inl e \<Rightarrow> ([], Inl e)
      | Inr a \<Rightarrow>
          (case load_model env a of
             Some e \<Rightarrow> ([Ev_create_asr_model a, Ev_load_model a], Inl e)
           | None \<Rightarrow>
               ([Ev_create_asr_model a, Ev_load_model a],
                Inr \<lparr>asr_model = a, LANGUAGE_CODES = sort (map fst (LANGUAGES env))\<rparr>)))"

subsection \<open>Parameter declarations\<close>

text \<open>
  A \<^verbatim>\<open>Query(...)\<close>, \<^verbatim>\<open>Form(...)\<close> or \<^verbatim>\<open>File(...)\<close> declaration: which of the
  three it is, the default, the enumeration given as \<^verbatim>\<open>enum=\<close> and the flag
  \<^verbatim>\<open>include_in_schema\<close> (True when it is not given). \<open>PEllipsis\<close> is the default
  \<^verbatim>\<open>...\<close> of a required parameter. The \<^verbatim>\<open>description\<close> texts are left out.
\<close>
datatype param_kind = Query | Form | File

datatype pyval = PEllipsis | PNone | PBool bool | PInt int | PStr string

record param =
  p_kind :: param_kind
  p_name :: string
  p_default :: pyval
  p_enum :: "string list option"
  p_include_in_schema :: bool

definition asr_params :: "config \<Rightarrow> module \<Rightarrow> param list" where
  "asr_params CONFIG m =
    [\<lparr>p_kind = File, p_name = ''audio_file'', p_default = PEllipsis, p_enum = None, p_include_in_schema = True\<rparr>,
     \<lparr>p_kind = Query, p_name = ''encode'', p_default = PBool True, p_enum = None, p_include_in_schema = True\<rparr>,
     \<lparr>p_kind = Query, p_name = ''task'', p_default = PStr ''transcribe'',
      p_enum = Some [''transcribe'', ''translate''], p_include_in_schema = True\<rparr>,
     \<lparr>p_kind = Query, p_name = ''language'', p_default = PNone, p_enum = Some (LANGUAGE_CODES m),
      p_include_in_schema = True\<rparr>,
     \<lparr>p_kind = Query, p_name = ''initial_prompt'', p_default = PNone, p_enum = None, p_include_in_schema = True\<rparr>,
     \<lparr>p_kind = Query, p_name = ''vad_filter'', p_default = PBool False, p_enum = None,
      p_include_in_schema = (if ASR_ENGINE CONFIG = ''faster_whisper'' then True else False)\<rparr>,
     \<lparr>p_kind = Query, p_name = ''word_timestamps'', p_default = PBool False, p_enum = None,
      p_include_in_schema = (if ASR_ENGINE CONFIG = ''faster_whisper'' then True else False)\<rparr>,
     \<lparr>p_kind = Query, p_name = ''diarize'', p_default = PBool False, p_enum = None,
      p_include_in_schema =
        (if ASR_ENGINE CONFIG = ''whisperx'' \<and> HF_TOKEN CONFIG \<noteq> '''' then True else False)\<rparr>,
     \<lparr>p_kind = Query, p_name = ''min_speakers'', p_default = PNone, p_enum = None,
      p_include_in_schema = (if ASR_ENGINE CONFIG = ''whisperx'' then True else False)\<rparr>,
     \<lparr>p_kind = Query, p_name = ''max_speakers'', p_default = PNone, p_enum = None,
      p_include_in_schema = (if ASR_ENGINE CONFIG = ''whisperx'' then True else False)\<rparr>,
     \<lparr>p_kind = Query, p_name = ''output'', p_default = PStr ''txt'',
      p_enum = Some [''txt'', ''vtt'', ''srt'', ''tsv'', ''json''], p_include_in_schema = True\<rparr>]"

definition transcriptions_params :: "config \<Rightarrow> module \<Rightarrow> param list" where
  "transcriptions_params CONFIG m =
    [\<lparr>p_kind = File, p_name = ''file'', p_default = PEllipsis, p_enum = None, p_include_in_schema = True\<rparr>,
     \<lparr>p_kind = Form, p_name = ''encode'', p_default = PBool True, p_enum = None, p_include_in_schema = True\<rparr>,
     \<lparr>p_kind = Form, p_name = ''language'', p_default = PNone, p_enum = Some (LANGUAGE_CODES m),
      p_include_in_schema = True\<rparr>,
     \<lparr>p_kind = Form, p_name = ''prompt'', p_default = PNone, p_enum = None, p_include_in_schema = True\<rparr>,
     \<lparr>p_kind = Form, p_name = ''vad_filter'', p_default = PBool False, p_enum = None,
      p_include_in_schema = (if ASR_ENGINE CONFIG = ''faster_whisper'' then True else False)\<rparr>,
     \<lparr>p_kind = Form, p_name = ''word_timestamps'', p_default = PBool False, p_enum = None,
      p_include_in_schema = (if ASR_ENGINE CONFIG = ''faster_whisper'' then True else False)\<rparr>,
     \<lparr>p_kind = Form, p_name = ''diarize'', p_default = PBool False, p_enum = None,
      p_include_in_schema =
        (if ASR_ENGINE CONFIG = ''whisperx'' \<and> HF_TOKEN CONFIG \<noteq> '''' then True else False)\<rparr>,
     \<lparr>p_kind = Form, p_name = ''min_speakers'', p_default = PNone, p_enum = None,
      p_include_in_schema = (if ASR_ENGINE CONFIG = ''whisperx'' then True else False)\<rparr>,
     \<lparr>p_kind = Form, p_name = ''max_speakers'', p_default = PNone, p_enum = None,
      p_include_in_schema = (if ASR_ENGINE CONFIG = ''whisperx'' then True else False)\<rparr>,
     \<lparr>p_kind = Form, p_name = ''model'', p_default = PStr ''whisper-1'', p_enum = None, p_include_in_schema = True\<rparr>,
     \<lparr>p_kind = Form, p_name = ''response_format'', p_default = PStr ''json'',
      p_enum = Some [''txt'', ''vtt'', ''srt'', ''tsv'', ''json''], p_include_in_schema = True\<rparr>]"

definition detect_language_params :: "param list" where
  "detect_language_params =
    [\<lparr>p_kind = File, p_name = ''audio_file'', p_default = PEllipsis, p_enum = None, p_include_in_schema = True\<rparr>,
     \<lparr>p_kind = Query, p_name = ''encode'', p_default = PBool True, p_enum = None, p_include_in_schema = True\<rparr>]"

text \<open>Reading a declaration off a handler's parameter list, by name.\<close>
definition declared :: "param list \<Rightarrow> string \<Rightarrow> param option" where
  "declared ps n = find (\<lambda>p. p_name p = n) ps"

text \<open>
  What the generated OpenAPI document shows. The framework lists a query parameter
  unless its \<^verbatim>\<open>include_in_schema\<close> is False. The \<^verbatim>\<open>Form\<close> and \<^verbatim>\<open>File\<close> fields of an
  operation are merged into one request-body schema that lists every field: there
  the flag of a single field is not consulted.
\<close>
definition exposed :: "param list \<Rightarrow> string \<Rightarrow> bool" where
  "exposed ps n =
     (case declared ps n of
        None \<Rightarrow> False
      | Some p \<Rightarrow>
          (case p_kind p of
             Query \<Rightarrow> p_include_in_schema p
           | Form \<Rightarrow> True
           | File \<Rightarrow> True))"

definition default_of :: "param list \<Rightarrow> string \<Rightarrow> pyval option" where
  "default_of ps n = map_option p_default (declared ps n)"

definition enum_of :: "param list \<Rightarrow> string \<Rightarrow> string list option" where
  "enum_of ps n = (case declared ps n of None \<Rightarrow> None | Some p \<Rightarrow> p_enum p)"

subsection \<open>Library functions the handlers call\<close>

text \<open>
  \<^verbatim>\<open>urllib.parse.quote\<close> with its default \<^verbatim>\<open>safe='/'\<close>: a byte of the UTF-8
  text is kept when it is a letter, a digit or one of \<^verbatim>\<open>_.-~/\<close>, and written as
  a percent sign and two upper-case hexadecimal digits otherwise.
\<close>
definition always_safe :: "char \<Rightarrow> bool" where
  "always_safe c =
     (c \<in> set (''ABCDEFGHIJKLMNOPQRSTUVWXYZ'' @ ''abcdefghijklmnopqrstuvwxyz'' @
               ''0123456789'' @ ''_.-~'' @ ''/''))"

definition hex_digit :: "nat \<Rightarrow> char" where
  "hex_digit n = ''0123456789ABCDEF'' ! (n mod 16)"

definition quote_byte :: "char \<Rightarrow> string" where
  "quote_byte c =
     (if always_safe c then [c]
      else [CHR ''%'', hex_digit ((of_char c :: nat) div 16), hex_digit ((of_char c :: nat) mod 16)])"

definition quote :: "string \<Rightarrow> string" where
  "quote s = concat (map quote_byte s)"

text \<open>How an f-string renders a value of type \<^verbatim>\<open>Union[str, None]\<close>.\<close>
definition format_str :: "string option \<Rightarrow> string" where
  "format_str v = (case v of None \<Rightarrow> ''None'' | Some s \<Rightarrow> s)"

definition content_disposition :: "string \<Rightarrow> string option \<Rightarrow> string" where
  "content_disposition name fmt =
     ''attachment; filename='' @ [CHR 0x22] @ quote name @ ''.'' @ format_str fmt @ [CHR 0x22]"

subsection \<open>The handlers\<close>

text \<open>The arguments FastAPI binds for \<^verbatim>\<open>asr\<close>, with the types the signature gives them.\<close>
record asr_args =
  a_audio_file :: upload_file
  a_encode :: bool
  a_task :: "string option"
  a_language :: "string option"
  a_initial_prompt :: "string option"
  a_vad_filter :: "bool option"
  a_word_timestamps :: bool
  a_diarize :: bool
  a_min_speakers :: "int option"
  a_max_speakers :: "int option"
  a_output :: "string option"

record transcriptions_args =
  t_file :: upload_file
  t_encode :: bool
  t_language :: "string option"
  t_prompt :: "string option"
  t_vad_filter :: "bool option"
  t_word_timestamps :: bool
  t_diarize :: bool
  t_min_speakers :: "int option"
  t_max_speakers :: "int option"
  t_model :: "string option"
  t_response_format :: "string option"

record detect_language_args =
  d_audio_file :: upload_file
  d_encode :: bool

text \<open>
  A handler returns the trace of its calls and either the exception that ended it or
  its response. Python evaluates the arguments of \<^verbatim>\<open>asr_model.transcribe(...)\<close> before
  the call, so \<^verbatim>\<open>load_audio\<close> runs first and its exception ends the handler before
  the engine is reached. Nothing in the module catches an exception.
\<close>
definition asr :: "config \<Rightarrow> env \<Rightarrow> module \<Rightarrow> asr_args \<Rightarrow> event list \<times> (error + streaming_response)" where
  "asr CONFIG env m r =
     (case load_audio env (file_bytes (a_audio_file r)) (a_encode r) of
        Inl e \<Rightarrow> ([Ev_load_audio (file_bytes (a_audio_file r)) (a_encode r)], Inl e)
      | Inr audio \<Rightarrow>
          (let args = \<lparr>ta_audio = audio, ta_task = a_task r, ta_language = a_language r,
                       ta_initial_prompt = a_initial_prompt r, ta_vad_filter = a_vad_filter r,
                       ta_word_timestamps = a_word_timestamps r,
                       ta_options = \<lparr>opt_diarize = a_diarize r,
                                     opt_min_speakers = a_min_speakers r,
                                     opt_max_speakers = a_max_speakers r\<rparr>,
                       ta_output = a_output r\<rparr>;
               called = transcribe env (asr_model m) args;
               trace = Ev_load_audio (file_bytes (a_audio_file r)) (a_encode r) #
                       Ev_transcribe (asr_model m) args # map Ev_engine (fst called)
           in case snd called of
                Inl e \<Rightarrow> (trace, Inl e)
              | Inr result \<Rightarrow>
                  (trace,
                   Inr \<lparr>body = result, media_type = ''text/plain'',
                        headers =
                          [(''Asr-Engine'', ASR_ENGINE CONFIG),
                           (''Content-Disposition'',
                            content_disposition (filename (a_audio_file r)) (a_output r))]\<rparr>)))"

definition transcriptions ::
  "config \<Rightarrow> env \<Rightarrow> module \<Rightarrow> transcriptions_args \<Rightarrow> event list \<times> (error + streaming_response)" where
  "transcriptions CONFIG env m r =
     (case load_audio env (file_bytes (t_file r)) (t_encode r) of
        Inl e \<Rightarrow> ([Ev_load_audio (file_bytes (t_file r)) (t_encode r)], Inl e)
      | Inr audio \<Rightarrow>
          (let args = \<lparr>ta_audio = audio, ta_task = Some ''transcribe'', ta_language = t_language r,
                       ta_initial_prompt = t_prompt r, ta_vad_filter = t_vad_filter r,
                       ta_word_timestamps = t_word_timestamps r,
                       ta_options = \<lparr>opt_diarize = t_diarize r,
                                     opt_min_speakers = t_min_speakers r,
                                     opt_max_speakers = t_max_speakers r\<rparr>,
                       ta_output = t_response_format r\<rparr>;
               called = transcribe env (asr_model m) args;
               trace = Ev_load_audio (file_bytes (t_file r)) (t_encode r) #
                       Ev_transcribe (asr_model m) args # map Ev_engine (fst called)
           in case snd called of
                Inl e \<Rightarrow> (trace, Inl e)
              | Inr result \<Rightarrow>
                  (trace,
                   Inr \<lparr>body = result, media_type = ''text/plain'',
                        headers =
                          [(''Asr-Engine'', ASR_ENGINE CONFIG),
                           (''Content-Disposition'',
                            content_disposition (filename (t_file r)) (t_response_format r))]\<rparr>)))"

text \<open>
  \<^verbatim>\<open>tokenizer.LANGUAGES[detected_lang_code]\<close> raises \<^verbatim>\<open>KeyError\<close> for a code that is
  not a key of the table.
\<close>
definition detect_language ::
  "env \<Rightarrow> module \<Rightarrow> detect_language_args \<Rightarrow> event list \<times> (error + json_object)" where
  "detect_language env m r =
     (case load_audio env (file_bytes (d_audio_file r)) (d_encode r) of
        Inl e \<Rightarrow> ([Ev_load_audio (file_bytes (d_audio_file r)) (d_encode r)], Inl e)
      | Inr audio \<Rightarrow>
          (let called = language_detection env (asr_model m) audio;
               trace = Ev_load_audio (file_bytes (d_audio_file r)) (d_encode r) #
                       Ev_language_detection (asr_model m) audio # map Ev_engine (fst called)
           in case snd called of
                Inl e \<Rightarrow> (trace, Inl e)
              | Inr (detected_lang_code, confidence) \<Rightarrow>
                  (case map_of (LANGUAGES env) detected_lang_code of
                     None \<Rightarrow> (trace, Inl (KeyError detected_lang_code))
                   | Some name \<Rightarrow>
                       (trace,
                        Inr [(''detected_language'', JString name),
                             (''language_code'', JString detected_lang_code),
                             (''confidence'', JNumber confidence)]))))"

subsection \<open>The process: one import, then requests\<close>

datatype request =
    Asr asr_args
  | Transcriptions transcriptions_args
  | Detect_language detect_language_args

text \<open>
  Serving one request: the handler reads the global \<^verbatim>\<open>asr_model\<close>; no handler has
  a \<^verbatim>\<open>global\<close> statement or assigns a module attribute, so the module state after
  the request is the one before it.
\<close>
fun serve :: "config \<Rightarrow> env \<Rightarrow> module \<Rightarrow> request \<Rightarrow> event list \<times> module" where
  "serve CONFIG env m (Asr r) = (fst (asr CONFIG env m r), m)"
| "serve CONFIG env m (Transcriptions r) = (fst (transcriptions CONFIG env m r), m)"
| "serve CONFIG env m (Detect_language r) = (fst (detect_language env m r), m)"

fun serve_all :: "config \<Rightarrow> env \<Rightarrow> module \<Rightarrow> request list \<Rightarrow> event list \<times> module" where
  "serve_all CONFIG env m [] = ([], m)"
| "serve_all CONFIG env m (q # qs) =
     (let one = serve CONFIG env m q; rest = serve_all CONFIG env (snd one) qs
      in (fst one @ fst rest, snd rest))"

text \<open>
  The life of the process: the import runs, and only when it has succeeded are
  requests served (\<^verbatim>\<open>uvicorn.run(app, ...)\<close> is given the module's own \<^verbatim>\<open>app\<close> object).
\<close>
definition process :: "config \<Rightarrow> env \<Rightarrow> request list \<Rightarrow> event list \<times> module option" where
  "process CONFIG env qs =
     (case module_import env of
        (started, Inl e) \<Rightarrow> (started, None)
      | (started, Inr m) \<Rightarrow>
          (let served = serve_all CONFIG env m qs in (started @ fst served, Some (snd served))))"

text \<open>Reading a trace: the engine objects built, and the receivers of the engine calls.\<close>
fun constructed :: "event list \<Rightarrow> obj list" where
  "constructed [] = []"
| "constructed (Ev_create_asr_model a # tr) = a # constructed tr"
| "constructed (_ # tr) = constructed tr"

fun receivers :: "event list \<Rightarrow> obj list" where
  "receivers [] = []"
| "receivers (Ev_transcribe a _ # tr) = a # receivers tr"
| "receivers (Ev_language_detection a _ # tr) = a # receivers tr"
| "receivers (_ # tr) = receivers tr"

fun transcribe_calls :: "event list \<Rightarrow> transcribe_args list" where
  "transcribe_calls [] = []"
| "transcribe_calls (Ev_transcribe _ args # tr) = args # transcribe_calls tr"
| "transcribe_calls (_ # tr) = transcribe_calls tr"


section \<open>The collaborators, as the design document describes them\<close>

text \<open>
  Modelled from the spec: \<^verbatim>\<open>app.utils.load_audio\<close> (AudioSource) is not part of the
  sources at hand. The design document makes a failure of it a client-input error
  and an empty upload an \<^verbatim>\<open>InvalidAudioError\<close>; the conversion of a non-empty
  upload is the parameter \<open>decode\<close>.
\<close>
definition load_audio_spec ::
  "(bytes \<Rightarrow> bool \<Rightarrow> error + waveform) \<Rightarrow> bytes \<Rightarrow> bool \<Rightarrow> error + waveform" where
  "load_audio_spec decode upload enc =
     (if upload = [] then Inl InvalidAudioError else decode upload enc)"

text \<open>
  Modelled from the spec: EngineCapabilities, the optional features a variant
  advertises. The reference variant advertises none of them.
\<close>
record capabilities =
  supports_vad :: bool
  supports_word_timestamps :: bool
  supports_diarization :: bool

definition reference_capabilities :: capabilities where
  "reference_capabilities =
     \<lparr>supports_vad = False, supports_word_timestamps = False, supports_diarization = False\<rparr>"

text \<open>
  Modelled from the spec: capability gating. An option the active engine does not
  advertise is silently ignored: the engine works as if the option were off.
\<close>
definition gate :: "capabilities \<Rightarrow> transcribe_args \<Rightarrow> transcribe_args" where
  "gate caps a =
     a\<lparr>ta_vad_filter := (if supports_vad caps then ta_vad_filter a else Some False),
       ta_word_timestamps := (if supports_word_timestamps caps then ta_word_timestamps a else False),
       ta_options :=
         (if supports_diarization caps then ta_options a
          else \<lparr>opt_diarize = False, opt_min_speakers = None, opt_max_speakers = None\<rparr>)\<rparr>"

text \<open>
  Modelled from the spec: the speaker bounds are both optional; when both are given,
  \<open>min_speakers \<le> max_speakers\<close> must hold.
\<close>
definition contradictory_bounds :: "diarize_options \<Rightarrow> bool" where
  "contradictory_bounds d =
     (case opt_min_speakers d of
        None \<Rightarrow> False
      | Some lo \<Rightarrow> (case opt_max_speakers d of None \<Rightarrow> False | Some hi \<Rightarrow> hi < lo))"

text \<open>
  Modelled from the spec: \<^verbatim>\<open>transcribe\<close> of the engine classes, which are not part
  of the sources at hand. A diarizing variant rejects contradictory speaker bounds
  with \<^verbatim>\<open>InvalidOptionError\<close> before any inference; an empty waveform is an
  \<^verbatim>\<open>InvalidAudioError\<close>; otherwise the model runs on the gated options. What the
  model computes is the parameter \<open>infer\<close>.
\<close>
definition transcribe_spec ::
  "capabilities \<Rightarrow> (transcribe_args \<Rightarrow> error + string list) \<Rightarrow> obj \<Rightarrow> transcribe_args \<Rightarrow>
   engine_event list \<times> (error + string list)" where
  "transcribe_spec caps infer self a =
     (if supports_diarization caps \<and> contradictory_bounds (ta_options a)
      then ([], Inl InvalidOptionError)
      else if ta_audio a = [] then ([], Inl InvalidAudioError)
      else ([Inference], infer (gate caps a)))"

text \<open>
  Modelled from the spec: \<^verbatim>\<open>language_detection\<close> of the engine classes
  (detectLanguage): \<^verbatim>\<open>InvalidAudioError\<close> on an empty waveform, otherwise what the
  model finds, the parameter \<open>detect\<close>.
\<close>
definition language_detection_spec ::
  "(waveform \<Rightarrow> error + string \<times> real) \<Rightarrow> obj \<Rightarrow> waveform \<Rightarrow>
   engine_event list \<times> (error + string \<times> real)" where
  "language_detection_spec detect self w =
     (if w = [] then ([], Inl InvalidAudioError) else ([Inference], detect w))"

text \<open>
  Modelled from the spec: a LanguageDetectionResult carries a confidence score in
  the unit interval.
\<close>
definition valid_detection :: "string \<times> real \<Rightarrow> bool" where
  "valid_detection d = (0 \<le> snd d \<and> snd d \<le> 1)"

text \<open>An environment whose loader and engine are the ones of the design document.\<close>
definition with_spec_engine ::
  "capabilities \<Rightarrow> (bytes \<Rightarrow> bool \<Rightarrow> error + waveform) \<Rightarrow>
   (transcribe_args \<Rightarrow> error + string list) \<Rightarrow> (waveform \<Rightarrow> error + string \<times> real) \<Rightarrow> env \<Rightarrow> env" where
  "with_spec_engine caps decode infer detect env =
     env\<lparr>load_audio := load_audio_spec decode,
         transcribe := transcribe_spec caps infer,
         language_detection := language_detection_spec detect\<rparr>"

text \<open>
  Modelled from the spec: the error taxonomy's HTTP statuses, which no code of
  \<^verbatim>\<open>webservice.py\<close> sets (the exception classes are declared elsewhere). An
  exception the taxonomy gives no status is the framework's 500.
\<close>
fun http_status :: "error \<Rightarrow> nat" where
  "http_status InvalidAudioError = 400"
| "http_status InvalidOptionError = 400"
| "http_status EngineTimeoutError = 504"
| "http_status _ = 500"

text \<open>The status the client sees: 200 for a response, the exception's status otherwise.\<close>
definition status_code :: "error + 'a \<Rightarrow> nat" where
  "status_code outcome = (case outcome of Inl e \<Rightarrow> http_status e | Inr _ \<Rightarrow> 200)"

section \<open>Values for stating and running the properties\<close>

text \<open>
  The \<^verbatim>\<open>/asr\<close> call that a \<^verbatim>\<open>/audio/transcriptions\<close> call stands for: the form
  fields \<^verbatim>\<open>file\<close>, \<^verbatim>\<open>prompt\<close> and \<^verbatim>\<open>response_format\<close> under their \<^verbatim>\<open>/asr\<close> names,
  and the task \<^verbatim>\<open>transcribe\<close>.
\<close>
definition as_asr :: "transcriptions_args \<Rightarrow> asr_args" where
  "as_asr t =
     \<lparr>a_audio_file = t_file t, a_encode = t_encode t, a_task = Some ''transcribe'',
      a_language = t_language t, a_initial_prompt = t_prompt t,
      a_vad_filter = t_vad_filter t, a_word_timestamps = t_word_timestamps t,
      a_diarize = t_diarize t, a_min_speakers = t_min_speakers t,
      a_max_speakers = t_max_speakers t, a_output = t_response_format t\<rparr>"

text \<open>The optional parameters of a \<^verbatim>\<open>transcribe\<close> call, as they arrived at the engine.\<close>
definition optional_arguments :: "transcribe_args \<Rightarrow> bool option \<times> bool \<times> diarize_options" where
  "optional_arguments a = (ta_vad_filter a, ta_word_timestamps a, ta_options a)"

definition sample_config :: config where
  "sample_config = \<lparr>ASR_ENGINE = ''whisperx'', HF_TOKEN = ''hf_abc''\<rparr>"

text \<open>A configuration whose engine is a variant without optional features.\<close>
definition reference_config :: config where
  "reference_config = \<lparr>ASR_ENGINE = ''openai_whisper'', HF_TOKEN = ''''\<rparr>"

text \<open>The \<^verbatim>\<open>whisperx\<close> engine configured without a diarization credential.\<close>
definition whisperx_without_token :: config where
  "whisperx_without_token = \<lparr>ASR_ENGINE = ''whisperx'', HF_TOKEN = ''''\<rparr>"

definition sample_module :: module where
  "sample_module = \<lparr>asr_model = 7, LANGUAGE_CODES = [''de'', ''en'']\<rparr>"

text \<open>A stand-in engine that answers every call, and a loader that accepts every upload.\<close>
definition sample_env :: env where
  "sample_env =
     \<lparr>create_asr_model = Inr 7,
      load_model = (\<lambda>a. None),
      load_audio = (\<lambda>upload enc. Inr [0, 1 / 2]),
      transcribe = (\<lambda>self a. ([Inference], Inr [''hello'', ''world''])),
      language_detection = (\<lambda>self w. ([Inference], Inr (''en'', 93 / 100))),
      LANGUAGES = [(''en'', ''english''), (''de'', ''german'')]\<rparr>"

definition sample_upload :: upload_file where
  "sample_upload = \<lparr>filename = ''my talk.wav'', file_bytes = [0x52, 0x49, 0x46, 0x46]\<rparr>"

definition empty_upload :: upload_file where
  "empty_upload = \<lparr>filename = ''silence.wav'', file_bytes = []\<rparr>"

definition sample_asr_args :: asr_args where
  "sample_asr_args =
     \<lparr>a_audio_file = sample_upload, a_encode = True, a_task = Some ''transcribe'',
      a_language = None, a_initial_prompt = None, a_vad_filter = Some True,
      a_word_timestamps = False, a_diarize = True, a_min_speakers = Some 3,
      a_max_speakers = Some 2, a_output = Some ''srt''\<rparr>"

definition sample_transcriptions_args :: transcriptions_args where
  "sample_transcriptions_args =
     \<lparr>t_file = sample_upload, t_encode = True, t_language = None, t_prompt = None,
      t_vad_filter = Some True, t_word_timestamps = False, t_diarize = True,
      t_min_speakers = Some 3, t_max_speakers = Some 2, t_model = Some ''whisper-1'',
      t_response_format = Some ''srt''\<rparr>"

definition sample_detect_language_args :: detect_language_args where
  "sample_detect_language_args = \<lparr>d_audio_file = sample_upload, d_encode = True\<rparr>"


text \<open>
  The engine and loader of the design document around a stand-in model that
  transcribes every non-empty waveform.
\<close>
definition sample_spec_env :: "capabilities \<Rightarrow> env" where
  "sample_spec_env caps =
     with_spec_engine caps (\<lambda>upload enc. Inr [0, 1 / 2]) (\<lambda>a. Inr [''hello'', ''world''])
       (\<lambda>w. Inr (''en'', 93 / 100)) sample_env"

section \<open>Reading traces\<close>

lemma constructed_append: "constructed (xs @ ys) = constructed xs @ constructed ys"
  by (induction xs rule: constructed.induct) simp_all

lemma receivers_append: "receivers (xs @ ys) = receivers xs @ receivers ys"
  by (induction xs rule: receivers.induct) simp_all

lemma constructed_engine: "constructed (map Ev_engine evs) = []"
  by (induction evs) simp_all

lemma receivers_engine: "receivers (map Ev_engine evs) = []"
  by (induction evs) simp_all

lemma transcribe_calls_engine: "transcribe_calls (map Ev_engine evs) = []"
  by (induction evs) simp_all

section \<open>What the handlers do with a request\<close>

lemma asr_transcribe_calls:
  "transcribe_calls (fst (asr CONFIG env m r)) =
     (case load_audio env (file_bytes (a_audio_file r)) (a_encode r) of
        Inl e \<Rightarrow> []
      | Inr audio \<Rightarrow>
          [\<lparr>ta_audio = audio, ta_task = a_task r, ta_language = a_language r,
            ta_initial_prompt = a_initial_prompt r, ta_vad_filter = a_vad_filter r,
            ta_word_timestamps = a_word_timestamps r,
            ta_options = \<lparr>opt_diarize = a_diarize r, opt_min_speakers = a_min_speakers r,
                          opt_max_speakers = a_max_speakers r\<rparr>,
            ta_output = a_output r\<rparr>])"
  by (simp add: asr_def Let_def transcribe_calls_engine split: sum.splits)

lemma asr_outcome:
  "snd (asr CONFIG env m r) =
     (case load_audio env (file_bytes (a_audio_file r)) (a_encode r) of
        Inl e \<Rightarrow> Inl e
      | Inr audio \<Rightarrow>
          (case snd (transcribe env (asr_model m)
                  \<lparr>ta_audio = audio, ta_task = a_task r, ta_language = a_language r,
                   ta_initial_prompt = a_initial_prompt r, ta_vad_filter = a_vad_filter r,
                   ta_word_timestamps = a_word_timestamps r,
                   ta_options = \<lparr>opt_diarize = a_diarize r, opt_min_speakers = a_min_speakers r,
                                 opt_max_speakers = a_max_speakers r\<rparr>,
                   ta_output = a_output r\<rparr>) of
             Inl e \<Rightarrow> Inl e
           | Inr result \<Rightarrow>
               Inr \<lparr>body = result, media_type = ''text/plain'',
                    headers =
                      [(''Asr-Engine'', ASR_ENGINE CONFIG),
                       (''Content-Disposition'',
                        content_disposition (filename (a_audio_file r)) (a_output r))]\<rparr>))"
  by (simp add: asr_def Let_def split: sum.splits)

lemma asr_load_failure:
  assumes "load_audio env (file_bytes (a_audio_file r)) (a_encode r) = Inl e"
  shows "asr CONFIG env m r = ([Ev_load_audio (file_bytes (a_audio_file r)) (a_encode r)], Inl e)"
  using assms by (simp add: asr_def)

lemma detect_language_load_failure:
  assumes "load_audio env (file_bytes (d_audio_file r)) (d_encode r) = Inl e"
  shows "detect_language env m r =
           ([Ev_load_audio (file_bytes (d_audio_file r)) (d_encode r)], Inl e)"
  using assms by (simp add: detect_language_def)

text \<open>The two transcription handlers differ in the names of their fields only.\<close>
lemma transcriptions_as_asr: "transcriptions CONFIG env m t = asr CONFIG env m (as_asr t)"
  by (simp add: transcriptions_def asr_def as_asr_def Let_def split: sum.splits)

lemma asr_forwards:
  "map optional_arguments (transcribe_calls (fst (asr CONFIG env m r))) =
     (case load_audio env (file_bytes (a_audio_file r)) (a_encode r) of
        Inl e \<Rightarrow> []
      | Inr audio \<Rightarrow>
          [(a_vad_filter r, a_word_timestamps r,
            \<lparr>opt_diarize = a_diarize r, opt_min_speakers = a_min_speakers r,
             opt_max_speakers = a_max_speakers r\<rparr>)])"
  by (simp add: asr_transcribe_calls optional_arguments_def split: sum.splits)

lemma transcriptions_forwards:
  "map optional_arguments (transcribe_calls (fst (transcriptions CONFIG env m t))) =
     (case load_audio env (file_bytes (t_file t)) (t_encode t) of
        Inl e \<Rightarrow> []
      | Inr audio \<Rightarrow>
          [(t_vad_filter t, t_word_timestamps t,
            \<lparr>opt_diarize = t_diarize t, opt_min_speakers = t_min_speakers t,
             opt_max_speakers = t_max_speakers t\<rparr>)])"
  by (simp add: transcriptions_as_asr asr_forwards as_asr_def split: sum.splits)

lemma declared_names:
  "map p_name (asr_params CONFIG m) =
     [''audio_file'', ''encode'', ''task'', ''language'', ''initial_prompt'', ''vad_filter'',
      ''word_timestamps'', ''diarize'', ''min_speakers'', ''max_speakers'', ''output'']"
  "map p_name (transcriptions_params CONFIG m) =
     [''file'', ''encode'', ''language'', ''prompt'', ''vad_filter'', ''word_timestamps'',
      ''diarize'', ''min_speakers'', ''max_speakers'', ''model'', ''response_format'']"
  by (simp_all add: asr_params_def transcriptions_params_def)

lemma exposed_asr:
  "exposed (asr_params CONFIG m) ''vad_filter'' = (ASR_ENGINE CONFIG = ''faster_whisper'')"
  "exposed (asr_params CONFIG m) ''word_timestamps'' = (ASR_ENGINE CONFIG = ''faster_whisper'')"
  "exposed (asr_params CONFIG m) ''diarize'' =
     (ASR_ENGINE CONFIG = ''whisperx'' \<and> HF_TOKEN CONFIG \<noteq> '''')"
  "exposed (asr_params CONFIG m) ''min_speakers'' = (ASR_ENGINE CONFIG = ''whisperx'')"
  "exposed (asr_params CONFIG m) ''max_speakers'' = (ASR_ENGINE CONFIG = ''whisperx'')"
  by (simp_all add: exposed_def declared_def asr_params_def)

text \<open>
  The five declarations of \<^verbatim>\<open>transcriptions\<close> carry the same flags, but as form fields
  they are part of the request-body schema under every configuration.
\<close>
lemma transcriptions_flags:
  "map_option p_include_in_schema (declared (transcriptions_params CONFIG m) ''vad_filter'') =
     Some (ASR_ENGINE CONFIG = ''faster_whisper'')"
  "map_option p_include_in_schema (declared (transcriptions_params CONFIG m) ''word_timestamps'') =
     Some (ASR_ENGINE CONFIG = ''faster_whisper'')"
  "map_option p_include_in_schema (declared (transcriptions_params CONFIG m) ''diarize'') =
     Some (ASR_ENGINE CONFIG = ''whisperx'' \<and> HF_TOKEN CONFIG \<noteq> '''')"
  "map_option p_include_in_schema (declared (transcriptions_params CONFIG m) ''min_speakers'') =
     Some (ASR_ENGINE CONFIG = ''whisperx'')"
  "map_option p_include_in_schema (declared (transcriptions_params CONFIG m) ''max_speakers'') =
     Some (ASR_ENGINE CONFIG = ''whisperx'')"
  by (simp_all add: declared_def transcriptions_params_def)

lemma exposed_transcriptions:
  "exposed (transcriptions_params CONFIG m) ''vad_filter''"
  "exposed (transcriptions_params CONFIG m) ''word_timestamps''"
  "exposed (transcriptions_params CONFIG m) ''diarize''"
  "exposed (transcriptions_params CONFIG m) ''min_speakers''"
  "exposed (transcriptions_params CONFIG m) ''max_speakers''"
  by (simp_all add: exposed_def declared_def transcriptions_params_def)

lemma asr_forwards_output:
  "map ta_output (transcribe_calls (fst (asr CONFIG env m r))) =
     (case load_audio env (file_bytes (a_audio_file r)) (a_encode r) of
        Inl e \<Rightarrow> []
      | Inr audio \<Rightarrow> [a_output r])"
  by (simp add: asr_transcribe_calls split: sum.splits)

lemma transcriptions_forwards_output:
  "map ta_output (transcribe_calls (fst (transcriptions CONFIG env m t))) =
     (case load_audio env (file_bytes (t_file t)) (t_encode t) of
        Inl e \<Rightarrow> []
      | Inr audio \<Rightarrow> [t_response_format t])"
  by (simp add: transcriptions_as_asr asr_forwards_output as_asr_def split: sum.splits)

lemma quote_sample: "quote ''my talk.wav'' = ''my%20talk.wav''"
  by code_simp

section \<open>Forwarding and exposure of the optional parameters\<close>

text \<open>
  Claim C1. The optional parameters \<^verbatim>\<open>vad_filter\<close>, \<^verbatim>\<open>word_timestamps\<close>, \<^verbatim>\<open>diarize\<close>,
  \<^verbatim>\<open>min_speakers\<close> and \<^verbatim>\<open>max_speakers\<close> are to be shown in the documentation under
  these conditions only: the first two iff the engine is \<^verbatim>\<open>faster_whisper\<close>, the third
  iff the engine is \<^verbatim>\<open>whisperx\<close> and \<^verbatim>\<open>HF_TOKEN\<close> is not empty, the bounds iff the
  engine is \<^verbatim>\<open>whisperx\<close>. The code does not do this on \<^verbatim>\<open>/audio/transcriptions\<close>.
  With the engine \<^verbatim>\<open>whisperx\<close> and an empty \<^verbatim>\<open>HF_TOKEN\<close>, the three declarations of
  \<^verbatim>\<open>vad_filter\<close>, \<^verbatim>\<open>word_timestamps\<close> and \<^verbatim>\<open>diarize\<close> carry the flag False on both
  endpoints; \<^verbatim>\<open>/asr\<close>, where they are query parameters, hides them, and
  \<^verbatim>\<open>/audio/transcriptions\<close>, where they are form fields, shows them. The values of
  the parameters reach the engine on both endpoints all the same.
\<close>
theorem transcriptions_documents_fields_it_flags_hidden:
  "ASR_ENGINE whisperx_without_token \<noteq> ''faster_whisper'' \<and>
   HF_TOKEN whisperx_without_token = '''' \<and>
   map_option p_include_in_schema
     (declared (transcriptions_params whisperx_without_token sample_module) ''vad_filter'') =
     Some False \<and>
   map_option p_include_in_schema
     (declared (transcriptions_params whisperx_without_token sample_module) ''word_timestamps'') =
     Some False \<and>
   map_option p_include_in_schema
     (declared (transcriptions_params whisperx_without_token sample_module) ''diarize'') =
     Some False \<and>
   exposed (transcriptions_params whisperx_without_token sample_module) ''vad_filter'' \<and>
   exposed (transcriptions_params whisperx_without_token sample_module) ''word_timestamps'' \<and>
   exposed (transcriptions_params whisperx_without_token sample_module) ''diarize'' \<and>
   \<not> exposed (asr_params whisperx_without_token sample_module) ''vad_filter'' \<and>
   \<not> exposed (asr_params whisperx_without_token sample_module) ''word_timestamps'' \<and>
   \<not> exposed (asr_params whisperx_without_token sample_module) ''diarize'' \<and>
   map optional_arguments (transcribe_calls
     (fst (transcriptions whisperx_without_token sample_env sample_module
            sample_transcriptions_args))) =
     [(Some True, False,
       \<lparr>opt_diarize = True, opt_min_speakers = Some 3, opt_max_speakers = Some 2\<rparr>)]"
proof -
  have forwarded: "map optional_arguments (transcribe_calls
     (fst (transcriptions whisperx_without_token sample_env sample_module
            sample_transcriptions_args))) =
     [(Some True, False,
       \<lparr>opt_diarize = True, opt_min_speakers = Some 3, opt_max_speakers = Some 2\<rparr>)]"
    by (simp add: transcriptions_forwards sample_env_def sample_transcriptions_args_def)
  have settings: "ASR_ENGINE whisperx_without_token = ''whisperx''"
    "HF_TOKEN whisperx_without_token = ''''"
    by (simp_all add: whisperx_without_token_def)
  show ?thesis
    by (simp add: forwarded transcriptions_flags exposed_transcriptions exposed_asr settings)
qed

section \<open>The OpenAI-compatible endpoint\<close>

text \<open>
  Claim C2. A request to \<^verbatim>\<open>/audio/transcriptions\<close> is handled as the \<^verbatim>\<open>/asr\<close> request
  with the same audio, language, prompt, VAD flag, word-timestamp flag, diarization
  options and format, and the task \<^verbatim>\<open>transcribe\<close>: trace and response are equal. The
  task argument of its \<^verbatim>\<open>transcribe\<close> call is the constant \<^verbatim>\<open>"transcribe"\<close>, and the
  endpoint declares no \<^verbatim>\<open>task\<close> field.
\<close>
theorem transcriptions_is_asr_with_task_transcribe:
  "transcriptions CONFIG env m t = asr CONFIG env m (as_asr t) \<and>
   a_task (as_asr t) = Some ''transcribe'' \<and>
   map ta_task (transcribe_calls (fst (transcriptions CONFIG env m t))) =
     (case load_audio env (file_bytes (t_file t)) (t_encode t) of
        Inl e \<Rightarrow> []
      | Inr audio \<Rightarrow> [Some ''transcribe'']) \<and>
   declared (transcriptions_params CONFIG m) ''task'' = None"
proof (intro conjI)
  show "transcriptions CONFIG env m t = asr CONFIG env m (as_asr t)"
    by (rule transcriptions_as_asr)
  show "a_task (as_asr t) = Some ''transcribe''"
    by (simp add: as_asr_def)
  show "map ta_task (transcribe_calls (fst (transcriptions CONFIG env m t))) =
     (case load_audio env (file_bytes (t_file t)) (t_encode t) of
        Inl e \<Rightarrow> []
      | Inr audio \<Rightarrow> [Some ''transcribe''])"
    by (simp add: transcriptions_as_asr asr_transcribe_calls as_asr_def split: sum.splits)
  show "declared (transcriptions_params CONFIG m) ''task'' = None"
    by (simp add: declared_def transcriptions_params_def)
qed

text \<open>The sample form request and the \<^verbatim>\<open>/asr\<close> request it stands for.\<close>
theorem transcriptions_is_asr_with_task_transcribe_witness:
  "transcriptions sample_config sample_env sample_module sample_transcriptions_args =
     asr sample_config sample_env sample_module sample_asr_args \<and>
   map ta_task (transcribe_calls
     (fst (transcriptions sample_config sample_env sample_module sample_transcriptions_args))) =
     [Some ''transcribe'']"
proof -
  have same: "as_asr sample_transcriptions_args = sample_asr_args"
    by (simp add: as_asr_def sample_transcriptions_args_def sample_asr_args_def)
  have calls: "map ta_task (transcribe_calls
     (fst (transcriptions sample_config sample_env sample_module sample_transcriptions_args))) =
     [Some ''transcribe'']"
    by (simp add: transcriptions_def Let_def sample_env_def)
  from transcriptions_is_asr_with_task_transcribe
    [of sample_config sample_env sample_module sample_transcriptions_args]
  have "transcriptions sample_config sample_env sample_module sample_transcriptions_args =
     asr sample_config sample_env sample_module (as_asr sample_transcriptions_args)"
    by (rule conjunct1)
  with same calls show ?thesis by simp
qed

text \<open>
  Claim C9. The form field \<^verbatim>\<open>model\<close> has the default \<^verbatim>\<open>"whisper-1"\<close> and is never
  read: changing it changes neither the calls the handler makes, with their
  arguments, nor the response.
\<close>
theorem model_field_never_reaches_engine:
  "default_of (transcriptions_params CONFIG m) ''model'' = Some (PStr ''whisper-1'') \<and>
   transcriptions CONFIG env m (t\<lparr>t_model := v\<rparr>) = transcriptions CONFIG env m t"
proof
  show "default_of (transcriptions_params CONFIG m) ''model'' = Some (PStr ''whisper-1'')"
    by (simp add: default_of_def declared_def transcriptions_params_def)
  show "transcriptions CONFIG env m (t\<lparr>t_model := v\<rparr>) = transcriptions CONFIG env m t"
    by (simp add: transcriptions_def Let_def split: sum.splits)
qed

text \<open>Asking for another model name changes nothing.\<close>
theorem model_field_never_reaches_engine_witness:
  "transcriptions sample_config sample_env sample_module
     (sample_transcriptions_args\<lparr>t_model := Some ''gpt-4o-transcribe''\<rparr>) =
   transcriptions sample_config sample_env sample_module sample_transcriptions_args"
  using model_field_never_reaches_engine
    [where CONFIG = sample_config and m = sample_module and env = sample_env
       and t = sample_transcriptions_args and v = "Some ''gpt-4o-transcribe''"]
  by (rule conjunct2)

text \<open>
  Claim C10, as amended. The declaration of \<^verbatim>\<open>output\<close> on \<^verbatim>\<open>/asr\<close> has the default
  \<^verbatim>\<open>"txt"\<close>, the declaration of \<^verbatim>\<open>response_format\<close> on \<^verbatim>\<open>/audio/transcriptions\<close> has
  the default \<^verbatim>\<open>"json"\<close>, and both declare the same enumeration of five formats.
  The enumeration is a part of the declaration only: neither handler checks the
  format, and the \<^verbatim>\<open>transcribe\<close> call receives the format of the request, whatever
  it is.
\<close>
theorem output_format_defaults_declared_enumeration_unchecked:
  "default_of (asr_params CONFIG m) ''output'' = Some (PStr ''txt'') \<and>
   default_of (transcriptions_params CONFIG m) ''response_format'' = Some (PStr ''json'') \<and>
   enum_of (asr_params CONFIG m) ''output'' = Some [''txt'', ''vtt'', ''srt'', ''tsv'', ''json''] \<and>
   enum_of (transcriptions_params CONFIG m) ''response_format'' =
     enum_of (asr_params CONFIG m) ''output'' \<and>
   map ta_output (transcribe_calls (fst (asr CONFIG env m r))) =
     (case load_audio env (file_bytes (a_audio_file r)) (a_encode r) of
        Inl e \<Rightarrow> []
      | Inr audio \<Rightarrow> [a_output r]) \<and>
   map ta_output (transcribe_calls (fst (transcriptions CONFIG env m t))) =
     (case load_audio env (file_bytes (t_file t)) (t_encode t) of
        Inl e \<Rightarrow> []
      | Inr audio \<Rightarrow> [t_response_format t])"
proof -
  have declarations:
    "default_of (asr_params CONFIG m) ''output'' = Some (PStr ''txt'') \<and>
     default_of (transcriptions_params CONFIG m) ''response_format'' = Some (PStr ''json'') \<and>
     enum_of (asr_params CONFIG m) ''output'' =
       Some [''txt'', ''vtt'', ''srt'', ''tsv'', ''json''] \<and>
     enum_of (transcriptions_params CONFIG m) ''response_format'' =
       enum_of (asr_params CONFIG m) ''output''"
    by (simp add: default_of_def enum_of_def declared_def asr_params_def
        transcriptions_params_def)
  with asr_forwards_output [of CONFIG env m r]
    transcriptions_forwards_output [of CONFIG env m t]
  show ?thesis by blast
qed

text \<open>The sample requests ask for \<^verbatim>\<open>srt\<close>, and \<^verbatim>\<open>srt\<close> is what the engine is given.\<close>
theorem output_format_defaults_declared_enumeration_unchecked_witness:
  "default_of (asr_params sample_config sample_module) ''output'' = Some (PStr ''txt'') \<and>
   default_of (transcriptions_params sample_config sample_module) ''response_format'' =
     Some (PStr ''json'') \<and>
   map ta_output (transcribe_calls
     (fst (asr sample_config sample_env sample_module sample_asr_args))) = [Some ''srt''] \<and>
   map ta_output (transcribe_calls
     (fst (transcriptions sample_config sample_env sample_module sample_transcriptions_args))) =
     [Some ''srt'']"
  using output_format_defaults_declared_enumeration_unchecked
    [where CONFIG = sample_config and m = sample_module and env = sample_env
       and r = sample_asr_args and t = sample_transcriptions_args]
  by (simp add: sample_env_def sample_asr_args_def sample_transcriptions_args_def)

text \<open>
  Claim C10 as stated fails: \<^verbatim>\<open>xml\<close> is none of the five formats, and a request to
  either endpoint that asks for it is answered with status 200 after the engine was
  called with the format \<^verbatim>\<open>xml\<close>.
\<close>
theorem output_format_xml_counterexample:
  "enum_of (asr_params sample_config sample_module) ''output'' =
     Some [''txt'', ''vtt'', ''srt'', ''tsv'', ''json''] \<and>
   ''xml'' \<notin> set [''txt'', ''vtt'', ''srt'', ''tsv'', ''json''] \<and>
   status_code (snd (asr sample_config sample_env sample_module
      (sample_asr_args\<lparr>a_output := Some ''xml''\<rparr>))) = 200 \<and>
   map ta_output (transcribe_calls (fst (asr sample_config sample_env sample_module
      (sample_asr_args\<lparr>a_output := Some ''xml''\<rparr>)))) = [Some ''xml''] \<and>
   status_code (snd (transcriptions sample_config sample_env sample_module
      (sample_transcriptions_args\<lparr>t_response_format := Some ''xml''\<rparr>))) = 200 \<and>
   map ta_output (transcribe_calls (fst (transcriptions sample_config sample_env sample_module
      (sample_transcriptions_args\<lparr>t_response_format := Some ''xml''\<rparr>)))) = [Some ''xml'']"
  by (simp add: enum_of_def declared_def asr_params_def asr_forwards_output
      transcriptions_forwards_output transcriptions_as_asr asr_outcome status_code_def
      as_asr_def sample_env_def)

section \<open>One engine for the life of the process\<close>

lemma asr_trace:
  "constructed (fst (asr CONFIG env m r)) = []"
  "list_all (\<lambda>a. a = asr_model m) (receivers (fst (asr CONFIG env m r)))"
  by (simp_all add: asr_def Let_def constructed_engine receivers_engine split: sum.splits)

lemma detect_language_trace:
  "constructed (fst (detect_language env m r)) = []"
  "list_all (\<lambda>a. a = asr_model m) (receivers (fst (detect_language env m r)))"
  by (simp_all add: detect_language_def Let_def constructed_engine receivers_engine
      split: sum.splits prod.splits option.splits)

lemma serve_keeps_module: "snd (serve CONFIG env m q) = m"
  by (cases q) simp_all

lemma serve_trace:
  "constructed (fst (serve CONFIG env m q)) = []"
  "list_all (\<lambda>a. a = asr_model m) (receivers (fst (serve CONFIG env m q)))"
  by (cases q; simp add: asr_trace detect_language_trace transcriptions_as_asr)+

text \<open>
  The invariant of the request loop, by induction on the requests with the module
  state generalised: the state stays, nothing is constructed, and every engine call
  has the module's engine as receiver.
\<close>
lemma serve_all_invariant:
  "snd (serve_all CONFIG env m qs) = m \<and>
   constructed (fst (serve_all CONFIG env m qs)) = [] \<and>
   list_all (\<lambda>a. a = asr_model m) (receivers (fst (serve_all CONFIG env m qs)))"
proof (induction qs arbitrary: m)
  case Nil
  show ?case by simp
next
  case (Cons q qs)
  have same: "snd (serve CONFIG env m q) = m"
    by (rule serve_keeps_module)
  from Cons.IH [of m] same show ?case
    by (simp add: Let_def constructed_append receivers_append serve_trace)
qed

text \<open>
  Claim C3. When the import of the module has succeeded with the module state \<open>m\<close>,
  then for every sequence of requests to the three endpoints: the trace of the
  process holds exactly one construction of an engine, it is the first event and
  precedes everything the endpoints do, every \<^verbatim>\<open>transcribe\<close> and
  \<^verbatim>\<open>language_detection\<close> call has that engine as receiver, and the module state
  after the last request is still \<open>m\<close>.
\<close>
theorem one_engine_for_the_process_lifetime:
  assumes "module_import env = (started, Inr m)"
  shows "constructed (fst (process CONFIG env qs)) = [asr_model m] \<and>
         (\<exists>served. fst (process CONFIG env qs) =
            Ev_create_asr_model (asr_model m) # Ev_load_model (asr_model m) # served \<and>
            constructed served = []) \<and>
         list_all (\<lambda>a. a = asr_model m) (receivers (fst (process CONFIG env qs))) \<and>
         snd (process CONFIG env qs) = Some m"
proof -
  from assms
  have started: "started = [Ev_create_asr_model (asr_model m), Ev_load_model (asr_model m)]"
    by (auto simp: module_import_def split: sum.splits option.splits)
  have run: "process CONFIG env qs =
      (started @ fst (serve_all CONFIG env m qs), Some (snd (serve_all CONFIG env m qs)))"
    using assms by (simp add: process_def Let_def)
  from serve_all_invariant [of CONFIG env m qs] show ?thesis
    by (simp add: run started)
qed

text \<open>
  The stand-in environment, one request to each endpoint: the import builds engine
  7, and the three engine calls go to engine 7.
\<close>
theorem one_engine_for_the_process_lifetime_witness:
  "module_import sample_env =
     ([Ev_create_asr_model 7, Ev_load_model 7],
      Inr \<lparr>asr_model = 7, LANGUAGE_CODES = [''de'', ''en'']\<rparr>) \<and>
   constructed (fst (process sample_config sample_env
      [Asr sample_asr_args, Detect_language sample_detect_language_args,
       Transcriptions sample_transcriptions_args])) = [7] \<and>
   receivers (fst (process sample_config sample_env
      [Asr sample_asr_args, Detect_language sample_detect_language_args,
       Transcriptions sample_transcriptions_args])) = [7, 7, 7]"
proof -
  have started: "module_import sample_env =
     ([Ev_create_asr_model 7, Ev_load_model 7],
      Inr \<lparr>asr_model = 7, LANGUAGE_CODES = [''de'', ''en'']\<rparr>)"
    by (simp add: module_import_def sample_env_def)
  have calls: "receivers (fst (process sample_config sample_env
      [Asr sample_asr_args, Detect_language sample_detect_language_args,
       Transcriptions sample_transcriptions_args])) = [7, 7, 7]"
    by code_simp
  from one_engine_for_the_process_lifetime [OF started, where CONFIG = sample_config and qs =
      "[Asr sample_asr_args, Detect_language sample_detect_language_args,
        Transcriptions sample_transcriptions_args]"] started calls
  show ?thesis by simp
qed

section \<open>The response of \<^verbatim>\<open>/asr\<close>\<close>

text \<open>
  Claim C4. A request to \<^verbatim>\<open>/asr\<close> that succeeds, for the format \<open>fmt\<close>, is answered
  with status 200 by a streaming response: its body is what the \<^verbatim>\<open>transcribe\<close> call
  returned, its media type is \<^verbatim>\<open>text/plain\<close>, the header \<^verbatim>\<open>Asr-Engine\<close> holds
  \<^verbatim>\<open>CONFIG.ASR_ENGINE\<close>, and the header \<^verbatim>\<open>Content-Disposition\<close> is
  \<^verbatim>\<open>attachment; filename="N.fmt"\<close> with \<open>N\<close> the percent-encoded name of the upload.
\<close>
theorem asr_response_headers:
  assumes "snd (asr CONFIG env m r) = Inr resp" and "a_output r = Some fmt"
  shows "status_code (snd (asr CONFIG env m r)) = 200 \<and>
         media_type resp = ''text/plain'' \<and>
         headers resp =
           [(''Asr-Engine'', ASR_ENGINE CONFIG),
            (''Content-Disposition'',
             ''attachment; filename='' @ [CHR 0x22] @ quote (filename (a_audio_file r)) @
             ''.'' @ fmt @ [CHR 0x22])] \<and>
         map (\<lambda>args. snd (transcribe env (asr_model m) args))
           (transcribe_calls (fst (asr CONFIG env m r))) = [Inr (body resp)]"
  using assms
  by (auto simp: asr_outcome asr_transcribe_calls status_code_def content_disposition_def
      format_str_def split: sum.splits)

text \<open>The upload \<^verbatim>\<open>my talk.wav\<close>, asked for as \<^verbatim>\<open>srt\<close>: the blank is percent-encoded.\<close>
theorem asr_response_headers_witness:
  "snd (asr sample_config sample_env sample_module sample_asr_args) =
     Inr \<lparr>body = [''hello'', ''world''], media_type = ''text/plain'',
          headers = [(''Asr-Engine'', ''whisperx''),
                     (''Content-Disposition'',
                      ''attachment; filename='' @ [CHR 0x22] @ ''my%20talk.wav.srt'' @ [CHR 0x22])]\<rparr> \<and>
   a_output sample_asr_args = Some ''srt'' \<and>
   status_code (snd (asr sample_config sample_env sample_module sample_asr_args)) = 200"
proof -
  have fmt: "a_output sample_asr_args = Some ''srt''"
    by (simp add: sample_asr_args_def)
  have ok: "snd (asr sample_config sample_env sample_module sample_asr_args) =
     Inr \<lparr>body = [''hello'', ''world''], media_type = ''text/plain'',
          headers = [(''Asr-Engine'', ''whisperx''),
                     (''Content-Disposition'',
                      ''attachment; filename='' @ [CHR 0x22] @ ''my%20talk.wav.srt'' @ [CHR 0x22])]\<rparr>"
    by (simp add: asr_outcome sample_env_def sample_asr_args_def sample_config_def
        sample_upload_def content_disposition_def format_str_def quote_sample)
  from asr_response_headers [OF ok fmt]
  have "status_code (snd (asr sample_config sample_env sample_module sample_asr_args)) = 200"
    by (rule conjunct1)
  with ok fmt show ?thesis by (intro conjI)
qed

section \<open>The response of \<^verbatim>\<open>/detect-language\<close>\<close>

text \<open>
  Claim C8. A request to \<^verbatim>\<open>/detect-language\<close> that succeeds is answered with an
  object of exactly the keys \<^verbatim>\<open>detected_language\<close>, \<^verbatim>\<open>language_code\<close> and
  \<^verbatim>\<open>confidence\<close>: the code is the one the engine's language detection returned
  and is a key of the language table, the name is the table's entry for the code,
  and the confidence is the engine's, which lies in the unit interval when the
  engine returns a LanguageDetectionResult as the design document describes it.
\<close>
theorem detect_language_response:
  assumes "snd (detect_language env m r) = Inr resp"
    and "\<forall>self w d. snd (language_detection env self w) = Inr d \<longrightarrow> valid_detection d"
  shows "\<exists>audio code name confidence.
           load_audio env (file_bytes (d_audio_file r)) (d_encode r) = Inr audio \<and>
           snd (language_detection env (asr_model m) audio) = Inr (code, confidence) \<and>
           resp = [(''detected_language'', JString name), (''language_code'', JString code),
                   (''confidence'', JNumber confidence)] \<and>
           map_of (LANGUAGES env) code = Some name \<and>
           code \<in> set (map fst (LANGUAGES env)) \<and>
           0 \<le> confidence \<and> confidence \<le> 1"
proof -
  from assms(1) obtain audio code confidence name where
    loaded: "load_audio env (file_bytes (d_audio_file r)) (d_encode r) = Inr audio" and
    found: "snd (language_detection env (asr_model m) audio) = Inr (code, confidence)" and
    named: "map_of (LANGUAGES env) code = Some name" and
    resp: "resp = [(''detected_language'', JString name), (''language_code'', JString code),
                   (''confidence'', JNumber confidence)]"
    by (auto simp: detect_language_def Let_def split: sum.splits prod.splits option.splits)
  from assms(2) found have "valid_detection (code, confidence)"
    by blast
  then have bounds: "0 \<le> confidence \<and> confidence \<le> 1"
    by (simp add: valid_detection_def)
  from named have "(code, name) \<in> set (LANGUAGES env)"
    by (rule map_of_SomeD)
  then have "code \<in> set (map fst (LANGUAGES env))"
    by force
  with loaded found named resp bounds show ?thesis
    by blast
qed

text \<open>The stand-in engine hears English with confidence 0.93.\<close>
theorem detect_language_response_witness:
  "snd (detect_language sample_env sample_module sample_detect_language_args) =
     Inr [(''detected_language'', JString ''english''), (''language_code'', JString ''en''),
          (''confidence'', JNumber (93 / 100))] \<and>
   valid_detection (''en'', 93 / 100) \<and>
   map_of (LANGUAGES sample_env) ''en'' = Some ''english'' \<and>
   ''en'' \<in> set (map fst (LANGUAGES sample_env))"
proof -
  have ok: "snd (detect_language sample_env sample_module sample_detect_language_args) =
     Inr [(''detected_language'', JString ''english''), (''language_code'', JString ''en''),
          (''confidence'', JNumber (93 / 100))]"
    by (simp add: detect_language_def Let_def sample_env_def)
  have contract:
    "\<forall>self w d. snd (language_detection sample_env self w) = Inr d \<longrightarrow> valid_detection d"
    by (auto simp: sample_env_def valid_detection_def)
  have valid: "valid_detection (''en'', 93 / 100)"
    by (simp add: valid_detection_def)
  from detect_language_response [OF ok contract]
  have "map_of (LANGUAGES sample_env) ''en'' = Some ''english'' \<and>
        ''en'' \<in> set (map fst (LANGUAGES sample_env))"
    by auto
  with ok valid show ?thesis by blast
qed

section \<open>Requests the engine of the design document rejects or gates\<close>

lemma spec_engine_fields:
  "load_audio (with_spec_engine caps decode infer detect env) = load_audio_spec decode"
  "transcribe (with_spec_engine caps decode infer detect env) = transcribe_spec caps infer"
  "language_detection (with_spec_engine caps decode infer detect env) =
     language_detection_spec detect"
  "LANGUAGES (with_spec_engine caps decode infer detect env) = LANGUAGES env"
  by (simp_all add: with_spec_engine_def)

lemma asr_empty_upload:
  assumes "file_bytes (a_audio_file r) = []"
  shows "asr CONFIG (with_spec_engine caps decode infer detect env) m r =
           ([Ev_load_audio [] (a_encode r)], Inl InvalidAudioError)"
  using assms by (simp add: asr_load_failure spec_engine_fields load_audio_spec_def)



text \<open>
  Claim C5. With the loader and the engine of the design document, an empty upload
  to any of the three endpoints ends in \<^verbatim>\<open>InvalidAudioError\<close>, which the client sees
  as status 400, not as a 200.
\<close>
theorem empty_upload_is_invalid_audio:
  assumes "file_bytes (a_audio_file r) = []"
    and "file_bytes (t_file t) = []"
    and "file_bytes (d_audio_file d) = []"
  shows "snd (asr CONFIG (with_spec_engine caps decode infer detect env) m r) =
           Inl InvalidAudioError \<and>
         status_code (snd (asr CONFIG (with_spec_engine caps decode infer detect env) m r)) = 400 \<and>
         snd (transcriptions CONFIG (with_spec_engine caps decode infer detect env) m t) =
           Inl InvalidAudioError \<and>
         status_code
           (snd (transcriptions CONFIG (with_spec_engine caps decode infer detect env) m t)) = 400 \<and>
         snd (detect_language (with_spec_engine caps decode infer detect env) m d) =
           Inl InvalidAudioError \<and>
         status_code (snd (detect_language (with_spec_engine caps decode infer detect env) m d)) = 400"
proof -
  have a: "file_bytes (a_audio_file (as_asr t)) = []"
    using assms(2) by (simp add: as_asr_def)
  have "load_audio (with_spec_engine caps decode infer detect env)
          (file_bytes (d_audio_file d)) (d_encode d) = Inl InvalidAudioError"
    using assms(3) by (simp add: spec_engine_fields load_audio_spec_def)
  then have dl: "snd (detect_language (with_spec_engine caps decode infer detect env) m d) =
      Inl InvalidAudioError"
    by (simp add: detect_language_load_failure)
  show ?thesis
    by (simp add: asr_empty_upload [OF assms(1)] transcriptions_as_asr asr_empty_upload [OF a] dl
        status_code_def)
qed

text \<open>The three sample requests with the empty upload \<^verbatim>\<open>silence.wav\<close>: each is a 400.\<close>
theorem empty_upload_is_invalid_audio_witness:
  "file_bytes (a_audio_file (sample_asr_args\<lparr>a_audio_file := empty_upload\<rparr>)) = [] \<and>
   file_bytes (t_file (sample_transcriptions_args\<lparr>t_file := empty_upload\<rparr>)) = [] \<and>
   file_bytes (d_audio_file (sample_detect_language_args\<lparr>d_audio_file := empty_upload\<rparr>)) = [] \<and>
   status_code (snd (asr reference_config (sample_spec_env reference_capabilities) sample_module
      (sample_asr_args\<lparr>a_audio_file := empty_upload\<rparr>))) = 400 \<and>
   status_code (snd (transcriptions reference_config (sample_spec_env reference_capabilities)
      sample_module (sample_transcriptions_args\<lparr>t_file := empty_upload\<rparr>))) = 400 \<and>
   status_code (snd (detect_language (sample_spec_env reference_capabilities) sample_module
      (sample_detect_language_args\<lparr>d_audio_file := empty_upload\<rparr>))) = 400"
proof -
  have a: "file_bytes (a_audio_file (sample_asr_args\<lparr>a_audio_file := empty_upload\<rparr>)) = []"
    by (simp add: empty_upload_def)
  have t: "file_bytes (t_file (sample_transcriptions_args\<lparr>t_file := empty_upload\<rparr>)) = []"
    by (simp add: empty_upload_def)
  have d: "file_bytes (d_audio_file (sample_detect_language_args\<lparr>d_audio_file := empty_upload\<rparr>)) = []"
    by (simp add: empty_upload_def)
  from empty_upload_is_invalid_audio [OF a t d, of reference_config reference_capabilities
      "\<lambda>upload enc. Inr [0, 1 / 2]" "\<lambda>a. Inr [''hello'', ''world'']"
      "\<lambda>w. Inr (''en'', 93 / 100)" sample_env sample_module]
  show ?thesis
    using a t d unfolding sample_spec_env_def by blast
qed







end
